theory Spec2Isabelle
  imports Complex_Main "HOL-Library.Sublist" "HOL-Library.AList" "HOL-Library.List_Lexorder"
    "HOL-Library.Char_ord"
begin

section \<open>Errors\<close>

text \<open>
  Every exception that \<^verbatim>\<open>plot.py\<close> can raise, or that a library call it makes can
  raise, is a value of \<open>error\<close>; a function that can raise returns \<open>error + 'a\<close> with
  \<open>Inl\<close> for the exception. \<open>ReadError\<close> stands for every failure of
  \<^verbatim>\<open>pd.read_csv\<close> other than \<^verbatim>\<open>FileNotFoundError\<close> (permissions, a malformed file, ...).
\<close>

datatype error =
    AssertionError string
  | ValueError string
  | IndexError
  | KeyError string
  | TypeError
  | AttributeError string
  | FileNotFoundError string
  | OSError string
  | ReadError string

section \<open>The duration parser \<^verbatim>\<open>parse_time\<close>\<close>

subsection \<open>The regular expression\<close>

text \<open>
  \<^verbatim>\<open>^((?P<days>[\.\d]+?)d)?((?P<hours>[\.\d]+?)h)?((?P<minutes>[\.\d]+?)m)?((?P<seconds>[\.\d]+?)s)?$\<close>

  The matcher below is the backtracking search of \<^verbatim>\<open>re.match\<close> written out for this
  pattern. \<open>is_cls\<close> is the character class \<^verbatim>\<open>[\.\d]\<close> (on ASCII text: the source's
  \<^verbatim>\<open>\d\<close> also accepts the other Unicode decimal digits, which a \<open>char\<close> cannot hold).
  \<open>lazy_runs s\<close> lists the ways \<^verbatim>\<open>[\.\d]+?\<close> can match at the start of \<open>s\<close>, shortest
  first, each with the text that follows. \<open>segment u\<close> lists the ways an optional group
  \<^verbatim>\<open>(([\.\d]+?)u)?\<close> can match: the group taken (in lazy order), then the group skipped.
  \<open>at_end\<close> is \<^verbatim>\<open>$\<close>, which in Python matches at the end of the string and also just
  before a newline that ends the string. \<open>regex_match\<close> returns the first complete match
  in that order, as the four named groups, or \<open>None\<close>.
\<close>

definition is_digit :: "char \<Rightarrow> bool" where
  "is_digit c = (CHR ''0'' \<le> c \<and> c \<le> CHR ''9'')"

definition is_cls :: "char \<Rightarrow> bool" where
  "is_cls c = (c = CHR ''.'' \<or> is_digit c)"

fun lazy_runs :: "string \<Rightarrow> (string \<times> string) list" where
  "lazy_runs [] = []"
| "lazy_runs (c # cs) =
     (if is_cls c then ([c], cs) # map (\<lambda>(g, r). (c # g, r)) (lazy_runs cs) else [])"

definition segment :: "char \<Rightarrow> string \<Rightarrow> (string option \<times> string) list" where
  "segment u s =
     map (\<lambda>(g, r). (Some g, tl r)) (filter (\<lambda>(g, r). r \<noteq> [] \<and> hd r = u) (lazy_runs s))
     @ [(None, s)]"

definition at_end :: "string \<Rightarrow> bool" where
  "at_end s = (s = [] \<or> s = [CHR 0x0A])"

type_synonym groups = "string option \<times> string option \<times> string option \<times> string option"

definition all_matches :: "string \<Rightarrow> groups list" where
  "all_matches s =
     concat (map (\<lambda>(d, r1).
       concat (map (\<lambda>(h, r2).
         concat (map (\<lambda>(m, r3).
           concat (map (\<lambda>(sec, r4). if at_end r4 then [(d, h, m, sec)] else [])
             (segment CHR ''s'' r3)))
           (segment CHR ''m'' r2)))
         (segment CHR ''h'' r1)))
       (segment CHR ''d'' s))"

definition regex_match :: "string \<Rightarrow> groups option" where
  "regex_match s = (case all_matches s of [] \<Rightarrow> None | g # _ \<Rightarrow> Some g)"

definition groupdict :: "groups \<Rightarrow> (string \<times> string option) list" where
  "groupdict g = (case g of (d, h, m, sec) \<Rightarrow>
     [(''days'', d), (''hours'', h), (''minutes'', m), (''seconds'', sec)])"

subsection \<open>\<^verbatim>\<open>float\<close> on the captured text\<close>

text \<open>
  \<^verbatim>\<open>float(param)\<close> is only ever applied to a group of the pattern, a non-empty string of
  digits and dots. On such a string Python accepts exactly the decimal literals with at
  most one dot and at least one digit (\<^verbatim>\<open>"5"\<close>, \<^verbatim>\<open>"5."\<close>, \<^verbatim>\<open>".5"\<close>, \<^verbatim>\<open>"0.25"\<close>) and raises
  \<^verbatim>\<open>ValueError\<close> on the others (\<^verbatim>\<open>"."\<close>, \<^verbatim>\<open>"1.2.3"\<close>). \<open>float_py\<close> is that function, with
  the exact decimal value as a rational: the rounding of the literal to a binary double is
  not modelled. (Literals with other characters, such as \<^verbatim>\<open>"1e5"\<close>, cannot reach it; the
  model rejects them.)
\<close>

definition digit_val :: "char \<Rightarrow> nat" where
  "digit_val c = of_char c - 48"

definition dec :: "string \<Rightarrow> nat" where
  "dec s = foldl (\<lambda>n c. 10 * n + digit_val c) 0 s"

definition float_msg :: "string \<Rightarrow> string" where
  "float_msg s = ''could not convert string to float: '' @ s"

definition float_py :: "string \<Rightarrow> error + rat" where
  "float_py s =
     (let ip = takeWhile is_digit s; r = dropWhile is_digit s in
      if r = [] then
        (if ip = [] then Inl (ValueError (float_msg s)) else Inr (of_nat (dec ip)))
      else if hd r = CHR ''.'' \<and> list_all is_digit (tl r) \<and> (ip \<noteq> [] \<or> tl r \<noteq> []) then
        Inr (of_nat (dec ip) + of_nat (dec (tl r)) / 10 ^ length (tl r))
      else Inl (ValueError (float_msg s)))"

subsection \<open>\<^verbatim>\<open>pd.Timedelta(**time_params)\<close>\<close>

text \<open>
  A duration is a rational number of seconds. \<open>Timedelta\<close> is the keyword constructor of
  pandas as \<^verbatim>\<open>parse_time\<close> uses it: the sum of the given components, and the
  \<^verbatim>\<open>ValueError\<close> that pandas raises when it is called with no argument at all. The
  nanosecond resolution and the 64-bit range of a pandas duration are not modelled.
\<close>

definition unit_seconds :: "string \<Rightarrow> rat" where
  "unit_seconds k =
     (if k = ''days'' then 86400 else if k = ''hours'' then 3600
      else if k = ''minutes'' then 60 else if k = ''seconds'' then 1 else 0)"

definition Timedelta :: "(string \<times> rat) list \<Rightarrow> error + rat" where
  "Timedelta kw =
     (if kw = [] then
        Inl (ValueError
          ''cannot construct a Timedelta without a value/unit or descriptive keywords (days,seconds....)'')
      else Inr (sum_list (map (\<lambda>(k, v). unit_seconds k * v) kw)))"

subsection \<open>\<^verbatim>\<open>parse_time\<close>\<close>

text \<open>
  \<open>time_params\<close> is the dictionary comprehension
  \<^verbatim>\<open>{name: float(param) for name, param in parts.groupdict().items() if param}\<close>:
  groups that are \<^verbatim>\<open>None\<close> (or empty) are dropped, the others are converted in the order
  of the groups, and the first conversion that raises ends the comprehension.
\<close>

definition assert_msg :: "string \<Rightarrow> string" where
  "assert_msg time_str =
     ''Could not parse any time information from '' @ [CHR 0x27] @ time_str @ [CHR 0x27]
     @ ''.  Examples of valid strings: '' @ [CHR 0x27] @ ''8h'' @ [CHR 0x27] @ '', ''
     @ [CHR 0x27] @ ''2d8h5m20s'' @ [CHR 0x27] @ '', '' @ [CHR 0x27] @ ''2m4s'' @ [CHR 0x27]"

fun time_params :: "(string \<times> string option) list \<Rightarrow> error + (string \<times> rat) list" where
  "time_params [] = Inr []"
| "time_params ((name, param) # rest) =
     (if param = None \<or> param = Some [] then time_params rest
      else case float_py (the param) of
             Inl e \<Rightarrow> Inl e
           | Inr v \<Rightarrow> (case time_params rest of
                         Inl e \<Rightarrow> Inl e
                       | Inr kw \<Rightarrow> Inr ((name, v) # kw)))"

definition parse_time :: "string \<Rightarrow> error + rat" where
  "parse_time time_str =
     (case regex_match time_str of
        None \<Rightarrow> Inl (AssertionError (assert_msg time_str))
      | Some parts \<Rightarrow>
          (case time_params (groupdict parts) of
             Inl e \<Rightarrow> Inl e
           | Inr kw \<Rightarrow> Timedelta kw))"

subsection \<open>Well-formed duration strings\<close>






section \<open>Tables\<close>

text \<open>
  A pandas \<^verbatim>\<open>DataFrame\<close> is its ordered column names and its rows in order; a row is an
  association list from column name to cell, and a column named in \<open>columns\<close> that a row
  does not hold reads as \<open>NaN\<close> there, as the cells that \<^verbatim>\<open>pd.concat\<close> fills in do. The
  row index of pandas is not modelled. A cell is a missing value, a string, a number
  (exact, as a rational), a boolean or a point in time (seconds, as a rational).
\<close>

datatype cell = NaN | CStr string | CNum rat | CBool bool | CTime rat

type_synonym row = "(string \<times> cell) list"

record dataframe =
  columns :: "string list"
  rows :: "row list"

definition cell_of :: "row \<Rightarrow> string \<Rightarrow> cell" where
  "cell_of r c = (case map_of r c of None \<Rightarrow> NaN | Some v \<Rightarrow> v)"

text \<open>
  \<open>unique\<close> keeps the first occurrence of every element, in order of first appearance
  (\<^verbatim>\<open>Series.unique\<close>, and the union of column names that \<^verbatim>\<open>pd.concat\<close> builds).
\<close>

definition unique :: "'a list \<Rightarrow> 'a list" where
  "unique xs = rev (remdups (rev xs))"

text \<open>\<^verbatim>\<open>df[name] = v\<close> for a scalar \<open>v\<close>: the column is overwritten in place, or added last.\<close>

definition set_column :: "string \<Rightarrow> cell \<Rightarrow> dataframe \<Rightarrow> dataframe" where
  "set_column name v df =
     \<lparr>columns = (if name \<in> set (columns df) then columns df else columns df @ [name]),
      rows = map (AList.update name v) (rows df)\<rparr>"

text \<open>
  \<^verbatim>\<open>pd.concat(frames)\<close>: the rows of the frames one after the other, over the union of
  their columns; pandas raises \<^verbatim>\<open>ValueError\<close> on an empty list.
\<close>

definition pd_concat :: "dataframe list \<Rightarrow> error + dataframe" where
  "pd_concat dfs =
     (if dfs = [] then Inl (ValueError ''No objects to concatenate'')
      else Inr \<lparr>columns = unique (concat (map columns dfs)),
                rows = concat (map rows dfs)\<rparr>)"

section \<open>The scenario data loader \<^verbatim>\<open>load_output_data\<close>\<close>

subsection \<open>The configuration\<close>

text \<open>
  The configuration is the dictionary that \<^verbatim>\<open>json.load\<close> returns, in key order: an
  association list with distinct keys. Its values are strings or integers (the other JSON
  types are left out). \<open>pop\<close> is \<^verbatim>\<open>dict.pop(key)\<close>; \<open>as_str\<close> is the \<^verbatim>\<open>TypeError\<close> that
  Python's string operations raise on a value that is not a string.
\<close>

datatype jval = JStr string | JInt int

type_synonym config = "(string \<times> jval) list"

definition pop :: "string \<Rightarrow> config \<Rightarrow> error + (jval \<times> config)" where
  "pop k c = (case map_of c k of
                None \<Rightarrow> Inl (KeyError k)
              | Some v \<Rightarrow> Inr (v, AList.delete k c))"

definition as_str :: "jval \<Rightarrow> error + string" where
  "as_str v = (case v of JStr s \<Rightarrow> Inr s | JInt n \<Rightarrow> Inl TypeError)"

text \<open>
  \<^verbatim>\<open>int(num_scenarios)\<close>: the identity on an integer; on a string it is Python's parser of
  integer literals, which the model takes as the parameter \<open>int_str\<close>.
\<close>

definition int_py :: "(string \<Rightarrow> error + int) \<Rightarrow> jval \<Rightarrow> error + int" where
  "int_py int_str v = (case v of JInt n \<Rightarrow> Inr n | JStr s \<Rightarrow> int_str s)"

subsection \<open>\<^verbatim>\<open>fill_timestep\<close>\<close>

text \<open>
  \<^verbatim>\<open>first_time_step_datetime + timestep*time_delta\<close>, on the cell of the \<^verbatim>\<open>timestep\<close>
  column: a number gives a point in time, a missing value gives a missing time, and
  anything else cannot be multiplied with a duration.
\<close>

definition fill_timestep :: "cell \<Rightarrow> rat \<Rightarrow> rat \<Rightarrow> error + cell" where
  "fill_timestep timestep first_time_step_datetime time_delta =
     (case timestep of
        CNum n \<Rightarrow> Inr (CTime (first_time_step_datetime + n * time_delta))
      | NaN \<Rightarrow> Inr NaN
      | _ \<Rightarrow> Inl TypeError)"

text \<open>
  \<^verbatim>\<open>df_temp['timestep_formatted'] = df_temp.apply(lambda x: fill_timestep(x.timestep, ...), axis=1)\<close>:
  the rows are visited in order, \<^verbatim>\<open>x.timestep\<close> raises \<^verbatim>\<open>AttributeError\<close> when the frame
  has no such column, and the first row that raises ends the call. (What pandas does with
  \<^verbatim>\<open>apply\<close> on a frame without rows is not reproduced: the model adds an empty column.)
\<close>

fun apply_fill_timestep :: "string list \<Rightarrow> rat \<Rightarrow> rat \<Rightarrow> row list \<Rightarrow> error + row list" where
  "apply_fill_timestep cols t0 delta [] = Inr []"
| "apply_fill_timestep cols t0 delta (x # xs) =
     (if ''timestep'' \<notin> set cols then Inl (AttributeError ''timestep'')
      else case fill_timestep (cell_of x ''timestep'') t0 delta of
             Inl e \<Rightarrow> Inl e
           | Inr v \<Rightarrow> (case apply_fill_timestep cols t0 delta xs of
                         Inl e \<Rightarrow> Inl e
                       | Inr ys \<Rightarrow> Inr (AList.update ''timestep_formatted'' v x # ys)))"

definition add_timestep_formatted :: "rat \<Rightarrow> rat \<Rightarrow> dataframe \<Rightarrow> error + dataframe" where
  "add_timestep_formatted t0 delta df =
     (case apply_fill_timestep (columns df) t0 delta (rows df) of
        Inl e \<Rightarrow> Inl e
      | Inr rs \<Rightarrow>
          Inr \<lparr>columns = (if ''timestep_formatted'' \<in> set (columns df) then columns df
                           else columns df @ [''timestep_formatted'']),
               rows = rs\<rparr>)"

subsection \<open>Percentile, paths, bound\<close>

text \<open>
  \<^verbatim>\<open>re.findall('\d*\.?\d+', file_name)[0]\<close>. At a given position the pattern matches the
  longest run of digits there, followed by a dot and the digits after it when a dot and a
  digit follow the run; it does not match when the position holds neither a digit nor a
  dot followed by a digit (a run followed by a dot without a digit after it is matched
  without the dot, by backtracking). \<open>findall_first\<close> is the match at the leftmost position
  that has one, which is the element \<^verbatim>\<open>[0]\<close>; without any match the index raises.
\<close>

definition match_at :: "string \<Rightarrow> string option" where
  "match_at s =
     (let run = takeWhile is_digit s; r = dropWhile is_digit s in
      if r \<noteq> [] \<and> hd r = CHR ''.'' \<and> tl r \<noteq> [] \<and> is_digit (hd (tl r))
      then Some (run @ [CHR ''.''] @ takeWhile is_digit (tl r))
      else if run \<noteq> [] then Some run else None)"

fun findall_first :: "string \<Rightarrow> string option" where
  "findall_first [] = None"
| "findall_first (c # cs) =
     (case match_at (c # cs) of Some m \<Rightarrow> Some m | None \<Rightarrow> findall_first cs)"

definition percentile_of :: "string \<Rightarrow> error + string" where
  "percentile_of file_name =
     (case findall_first file_name of None \<Rightarrow> Inl IndexError | Some p \<Rightarrow> Inr p)"

text \<open>\<^verbatim>\<open>os.path.join(a, b)\<close> on POSIX: an absolute \<open>b\<close> replaces \<open>a\<close>.\<close>

definition path_join :: "string \<Rightarrow> string \<Rightarrow> string" where
  "path_join a b =
     (if b \<noteq> [] \<and> hd b = CHR ''/'' then b
      else if a = [] \<or> last a = CHR ''/'' then a @ b
      else a @ ''/'' @ b)"

text \<open>\<^verbatim>\<open>'{}'.format(scenario_number)\<close>: the decimal digits of a natural number.\<close>

fun str_nat :: "nat \<Rightarrow> string" where
  "str_nat n =
     (if n < 10 then [char_of (48 + n)]
      else str_nat (n div 10) @ [char_of (48 + n mod 10)])"

definition scenario_path :: "string \<Rightarrow> nat \<Rightarrow> string" where
  "scenario_path output_path scenario_number =
     output_path @ ''_'' @ str_nat scenario_number @ ''/''"

text \<open>
  Lines 37 to 42: the bound is decided by \<open>file_type\<close>, the key of the configuration
  entry, with \<^verbatim>\<open>upper\<close> tested first.
\<close>

definition bound_of :: "string \<Rightarrow> string" where
  "bound_of file_type =
     (if sublist ''upper'' file_type then ''upper''
      else if sublist ''lower'' file_type then ''lower''
      else ''middle'')"

subsection \<open>Reading one summary file\<close>

text \<open>
  \<open>read_csv\<close> is the file system as \<^verbatim>\<open>pd.read_csv\<close> sees it: the table at a path, or
  the exception raised. Lines 30 to 33: only \<^verbatim>\<open>FileNotFoundError\<close> at the scenario path is
  caught, and the handler reads the path under \<open>output_path\<close>.
\<close>

definition read_with_fallback ::
  "(string \<Rightarrow> error + dataframe) \<Rightarrow> string \<Rightarrow> string \<Rightarrow> string \<Rightarrow> error + dataframe" where
  "read_with_fallback read_csv output_path scenario_output_path file_name =
     (case read_csv (path_join scenario_output_path file_name) of
        Inl (FileNotFoundError m) \<Rightarrow> read_csv (path_join output_path file_name)
      | Inl e \<Rightarrow> Inl e
      | Inr df \<Rightarrow> Inr df)"

text \<open>
  The body of the inner loop, lines 28 to 42, for one entry \<open>(file_type, file_name)\<close> of
  \<open>summary_files\<close>.
\<close>

definition load_summary_file ::
  "(string \<Rightarrow> error + dataframe) \<Rightarrow> string \<Rightarrow> string \<Rightarrow> rat \<Rightarrow> rat
   \<Rightarrow> string \<times> jval \<Rightarrow> error + dataframe" where
  "load_summary_file read_csv output_path scenario_output_path t0 delta entry =
     (case as_str (snd entry) of Inl e \<Rightarrow> Inl e | Inr file_name \<Rightarrow>
     (case percentile_of file_name of Inl e \<Rightarrow> Inl e | Inr percentile \<Rightarrow>
     (case read_with_fallback read_csv output_path scenario_output_path file_name of
        Inl e \<Rightarrow> Inl e
      | Inr df_temp \<Rightarrow>
     (case add_timestep_formatted t0 delta (set_column ''percentile'' (CStr percentile) df_temp) of
        Inl e \<Rightarrow> Inl e
      | Inr df2 \<Rightarrow> Inr (set_column ''bound'' (CStr (bound_of (fst entry))) df2)))))"

subsection \<open>The two loops\<close>

text \<open>
  The inner loop appends one table per entry to \<open>scenario_dataframes\<close>; the outer loop
  appends the concatenation of each scenario's tables to \<open>all_scenario_dataframes\<close>. An
  exception anywhere leaves both loops.
\<close>

fun load_files ::
  "(string \<Rightarrow> error + dataframe) \<Rightarrow> string \<Rightarrow> string \<Rightarrow> rat \<Rightarrow> rat
   \<Rightarrow> (string \<times> jval) list \<Rightarrow> dataframe list \<Rightarrow> error + dataframe list" where
  "load_files read_csv output_path sop t0 delta [] scenario_dataframes =
     Inr scenario_dataframes"
| "load_files read_csv output_path sop t0 delta (entry # rest) scenario_dataframes =
     (case load_summary_file read_csv output_path sop t0 delta entry of
        Inl e \<Rightarrow> Inl e
      | Inr df_temp \<Rightarrow>
          load_files read_csv output_path sop t0 delta rest (scenario_dataframes @ [df_temp]))"

fun load_scenarios ::
  "(string \<Rightarrow> error + dataframe) \<Rightarrow> jval \<Rightarrow> rat \<Rightarrow> rat \<Rightarrow> (string \<times> jval) list
   \<Rightarrow> nat list \<Rightarrow> dataframe list \<Rightarrow> error + dataframe list" where
  "load_scenarios read_csv output_path t0 delta summary_files [] all_scenario_dataframes =
     Inr all_scenario_dataframes"
| "load_scenarios read_csv output_path t0 delta summary_files (scenario_number # rest)
       all_scenario_dataframes =
     (case as_str output_path of Inl e \<Rightarrow> Inl e | Inr op \<Rightarrow>
     (case load_files read_csv op (scenario_path op scenario_number) t0 delta summary_files [] of
        Inl e \<Rightarrow> Inl e
      | Inr scenario_dataframes \<Rightarrow>
     (case pd_concat scenario_dataframes of
        Inl e \<Rightarrow> Inl e
      | Inr df \<Rightarrow>
          load_scenarios read_csv output_path t0 delta summary_files rest
            (all_scenario_dataframes @ [df]))))"

subsection \<open>\<^verbatim>\<open>load_output_data\<close>\<close>

text \<open>
  The function on a configuration that is passed in (the branch for \<^verbatim>\<open>config is None\<close>
  reads and parses \<^verbatim>\<open>config.json\<close> first and is not part of the model). The caller's
  dictionary is mutated by the five \<^verbatim>\<open>pop\<close> calls, so the result is the pair of what the
  call returns or raises and the dictionary as the call leaves it. \<open>strptime\<close> is
  \<^verbatim>\<open>datetime.strptime\<close>, a parameter. Each \<open>pop\<close> gives the pair of the value and the
  remaining dictionary: \<open>p1\<close> holds \<^verbatim>\<open>output_path\<close>, \<open>p2\<close> \<^verbatim>\<open>num_scenarios\<close>, \<open>p3\<close>
  \<^verbatim>\<open>time_step_format\<close>, \<open>p4\<close> \<^verbatim>\<open>time_delta\<close> and \<open>p5\<close> \<^verbatim>\<open>first_time_step\<close>.
\<close>

definition summary_entries :: "config \<Rightarrow> (string \<times> jval) list" where
  "summary_entries c = filter (\<lambda>(key, val). prefix ''summary_'' key) c"

definition strptime_py ::
  "(string \<Rightarrow> string \<Rightarrow> error + rat) \<Rightarrow> jval \<Rightarrow> jval \<Rightarrow> error + rat" where
  "strptime_py strptime first_time_step time_step_format =
     (case as_str first_time_step of Inl e \<Rightarrow> Inl e | Inr s \<Rightarrow>
     (case as_str time_step_format of Inl e \<Rightarrow> Inl e | Inr f \<Rightarrow> strptime s f))"

definition parse_time_py :: "jval \<Rightarrow> error + rat" where
  "parse_time_py v = (case as_str v of Inl e \<Rightarrow> Inl e | Inr s \<Rightarrow> parse_time s)"

definition load_output_data ::
  "(string \<Rightarrow> error + dataframe) \<Rightarrow> (string \<Rightarrow> string \<Rightarrow> error + rat) \<Rightarrow> (string \<Rightarrow> error + int)
   \<Rightarrow> config \<Rightarrow> (error + dataframe list \<times> jval) \<times> config" where
  "load_output_data read_csv strptime int_str config =
     (case pop ''output_path'' config of Inl e \<Rightarrow> (Inl e, config) | Inr p1 \<Rightarrow>
     (case pop ''num_scenarios'' (snd p1) of Inl e \<Rightarrow> (Inl e, snd p1) | Inr p2 \<Rightarrow>
     (case pop ''time_step_format'' (snd p2) of Inl e \<Rightarrow> (Inl e, snd p2) | Inr p3 \<Rightarrow>
     (case pop ''time_delta'' (snd p3) of Inl e \<Rightarrow> (Inl e, snd p3) | Inr p4 \<Rightarrow>
     (case parse_time_py (fst p4) of Inl e \<Rightarrow> (Inl e, snd p4) | Inr time_delta \<Rightarrow>
     (case pop ''first_time_step'' (snd p4) of Inl e \<Rightarrow> (Inl e, snd p4) | Inr p5 \<Rightarrow>
     (case strptime_py strptime (fst p5) (fst p3) of
        Inl e \<Rightarrow> (Inl e, snd p5)
      | Inr first_time_step_datetime \<Rightarrow>
     (case int_py int_str (fst p2) of Inl e \<Rightarrow> (Inl e, snd p5) | Inr n \<Rightarrow>
     (case load_scenarios read_csv (fst p1) first_time_step_datetime time_delta
             (summary_entries (snd p5)) [0 ..< nat n] [] of
        Inl e \<Rightarrow> (Inl e, snd p5)
      | Inr all_scenario_dataframes \<Rightarrow>
          (Inr (all_scenario_dataframes, fst p3), snd p5))))))))))"

section \<open>The figure builder \<^verbatim>\<open>make_figure\<close>\<close>

subsection \<open>Figures\<close>

text \<open>
  A plotly figure is the list of its traces, in the order \<^verbatim>\<open>add_trace\<close> added them, and
  its layout, \<open>None\<close> until \<^verbatim>\<open>update_layout\<close> is called. A trace records the arguments
  given to \<^verbatim>\<open>go.Scatter\<close>; an argument that the call leaves out is \<open>None\<close> (a line
  without \<^verbatim>\<open>width\<close> is drawn with plotly's default width, a visible line).
\<close>

record trace =
  tr_x :: "cell list"
  tr_y :: "cell list"
  tr_fill :: string
  tr_fillcolor :: "string option"
  tr_mode :: "string option"
  tr_line_color :: string
  tr_line_width :: "nat option"
  tr_name :: string

record layout =
  lay_title :: string
  lay_xaxis_tickformat :: jval
  lay_xaxis_tickangle :: int
  lay_yaxis_title :: string
  lay_font_size :: nat
  lay_font_color :: string
  lay_hovermode :: string
  lay_showlegend :: bool
  lay_plot_bgcolor :: string
  lay_xaxis_linecolor :: string
  lay_yaxis_linecolor :: string
  lay_rangeslider_visible :: bool
  lay_xaxis_type :: string

record figure =
  traces :: "trace list"
  fig_layout :: "layout option"

definition Figure :: figure where
  "Figure = \<lparr>traces = [], fig_layout = None\<rparr>"

text \<open>The two \<^verbatim>\<open>update_layout\<close> calls of lines 131 to 171, which set the same values each time.\<close>

definition the_layout :: "string \<Rightarrow> jval \<Rightarrow> layout" where
  "the_layout title time_step_format =
     \<lparr>lay_title = title, lay_xaxis_tickformat = time_step_format, lay_xaxis_tickangle = - 45,
      lay_yaxis_title = ''Patient Count'', lay_font_size = 12, lay_font_color = ''#464646'',
      lay_hovermode = ''x unified'', lay_showlegend = False,
      lay_plot_bgcolor = ''rgba(0,0,0,0)'', lay_xaxis_linecolor = ''#464646'',
      lay_yaxis_linecolor = ''#464646'', lay_rangeslider_visible = True,
      lay_xaxis_type = ''date''\<rparr>"

subsection \<open>Columns of a table\<close>

text \<open>
  \<^verbatim>\<open>df[c]\<close> raises \<^verbatim>\<open>KeyError\<close> and \<^verbatim>\<open>df.c\<close> raises \<^verbatim>\<open>AttributeError\<close> when the table has
  no column \<open>c\<close>. \<open>filter_percentile\<close> is \<^verbatim>\<open>df[df['percentile'] == p]\<close>.
\<close>

definition column_values :: "dataframe \<Rightarrow> string \<Rightarrow> cell list" where
  "column_values df c = map (\<lambda>r. cell_of r c) (rows df)"

definition getitem :: "dataframe \<Rightarrow> string \<Rightarrow> error + cell list" where
  "getitem df c = (if c \<in> set (columns df) then Inr (column_values df c) else Inl (KeyError c))"

definition getattr :: "dataframe \<Rightarrow> string \<Rightarrow> error + cell list" where
  "getattr df c =
     (if c \<in> set (columns df) then Inr (column_values df c) else Inl (AttributeError c))"

definition filter_percentile :: "dataframe \<Rightarrow> string \<Rightarrow> error + dataframe" where
  "filter_percentile df p =
     (if ''percentile'' \<in> set (columns df)
      then Inr \<lparr>columns = columns df,
                rows = filter (\<lambda>r. cell_of r ''percentile'' = CStr p) (rows df)\<rparr>
      else Inl (KeyError ''percentile''))"

subsection \<open>The percentiles of a table\<close>

text \<open>
  \<^verbatim>\<open>sorted(df.percentile.unique())\<close>. The loader writes the percentile as a string, and
  \<^verbatim>\<open>sorted\<close> compares strings character by character: \<open>sort\<close> on \<open>string\<close> with the
  lexicographic order of lists over the order of characters by code. A percentile column
  that holds anything but strings is not modelled: the model raises \<^verbatim>\<open>TypeError\<close>, as
  Python does when it compares a string with a number.
\<close>

definition cell_str :: "cell \<Rightarrow> string option" where
  "cell_str c = (case c of CStr s \<Rightarrow> Some s | _ \<Rightarrow> None)"

definition percentiles_of :: "dataframe \<Rightarrow> error + string list" where
  "percentiles_of df =
     (case getattr df ''percentile'' of
        Inl e \<Rightarrow> Inl e
      | Inr cs \<Rightarrow>
          (let us = map cell_str (unique cs) in
           if None \<in> set us then Inl TypeError else Inr (sort (map the us))))"

text \<open>Lines 84 to 88: \<^verbatim>\<open>list.remove\<close> raises \<^verbatim>\<open>ValueError\<close> when the name is not in the list.\<close>

definition remove_py :: "string \<Rightarrow> string list \<Rightarrow> error + string list" where
  "remove_py v l =
     (if v \<in> set l then Inr (remove1 v l) else Inl (ValueError ''list.remove(x): x not in list''))"

definition y_cols_of :: "dataframe \<Rightarrow> error + string list" where
  "y_cols_of df =
     (case remove_py ''timestep'' (columns df) of Inl e \<Rightarrow> Inl e | Inr l1 \<Rightarrow>
     (case remove_py ''percentile'' l1 of Inl e \<Rightarrow> Inl e | Inr l2 \<Rightarrow>
     (case remove_py ''timestep_formatted'' l2 of Inl e \<Rightarrow> Inl e | Inr l3 \<Rightarrow>
      remove_py ''bound'' l3)))"

subsection \<open>The aggregate \<^verbatim>\<open>df_filtered['bound'].all()\<close>\<close>

text \<open>
  The bound column holds Python objects. \<^verbatim>\<open>Series.all\<close> replaces the missing values by
  \<^verbatim>\<open>True\<close> and reduces the column with NumPy's \<^verbatim>\<open>logical_and\<close>, which on objects is
  Python's \<^verbatim>\<open>and\<close>: the result is the first element that is false as a truth value, and
  the last element when there is none; it is this object that the source compares with
  \<^verbatim>\<open>'lower'\<close> and \<^verbatim>\<open>'upper'\<close>. (A pandas that turns the result into a \<^verbatim>\<open>bool\<close> first makes
  both comparisons false; that is not the behaviour modelled.)
\<close>

definition truthy :: "cell \<Rightarrow> bool" where
  "truthy c = (case c of CStr s \<Rightarrow> s \<noteq> [] | CNum r \<Rightarrow> r \<noteq> 0 | CBool b \<Rightarrow> b | _ \<Rightarrow> True)"

fun and_reduce :: "cell \<Rightarrow> cell list \<Rightarrow> cell" where
  "and_reduce a [] = a"
| "and_reduce a (b # bs) = (if truthy a then and_reduce b bs else a)"

definition series_all :: "cell list \<Rightarrow> cell" where
  "series_all cs =
     (case map (\<lambda>c. if c = NaN then CBool True else c) cs of
        [] \<Rightarrow> CBool True
      | a # as \<Rightarrow> and_reduce a as)"

subsection \<open>One trace\<close>

text \<open>
  Lines 100 to 129 for one percentile \<open>p\<close> and one label key \<open>y\<close>. The arguments of
  \<^verbatim>\<open>go.Scatter\<close> are evaluated in the order written: \<^verbatim>\<open>df_filtered.timestep_formatted\<close>,
  \<^verbatim>\<open>df_filtered[y]\<close>, then the name, where \<open>str_float p\<close> is \<^verbatim>\<open>str(float(p))\<close>, a parameter.
\<close>

definition scatter ::
  "(string \<Rightarrow> error + string) \<Rightarrow> dataframe \<Rightarrow> string \<Rightarrow> string
   \<Rightarrow> string \<Rightarrow> string option \<Rightarrow> string option \<Rightarrow> nat option \<Rightarrow> error + trace" where
  "scatter str_float df_filtered y p fill fillcolor mode width =
     (case getattr df_filtered ''timestep_formatted'' of Inl e \<Rightarrow> Inl e | Inr xv \<Rightarrow>
     (case getitem df_filtered y of Inl e \<Rightarrow> Inl e | Inr yv \<Rightarrow>
     (case str_float p of Inl e \<Rightarrow> Inl e | Inr f \<Rightarrow>
      Inr \<lparr>tr_x = xv, tr_y = yv, tr_fill = fill, tr_fillcolor = fillcolor, tr_mode = mode,
           tr_line_color = ''indigo'', tr_line_width = width, tr_name = ''%ile: '' @ f\<rparr>)))"

definition make_trace ::
  "(string \<Rightarrow> error + string) \<Rightarrow> dataframe \<Rightarrow> string \<Rightarrow> string \<Rightarrow> error + trace" where
  "make_trace str_float df_filtered y p =
     (case getitem df_filtered ''bound'' of
        Inl e \<Rightarrow> Inl e
      | Inr bs \<Rightarrow>
          if series_all bs = CStr ''lower'' then
            scatter str_float df_filtered y p ''none'' None (Some ''lines'') (Some 0)
          else if series_all bs = CStr ''upper'' then
            scatter str_float df_filtered y p ''tonexty'' (Some ''rgba(75, 0, 130,0.2)'')
              (Some ''lines'') (Some 0)
          else
            scatter str_float df_filtered y p ''tonexty'' (Some ''rgba(75, 0, 130,0.2)'')
              None None)"

subsection \<open>The loops\<close>

text \<open>
  The loop over the percentiles adds one trace per percentile and sets the layout; the
  loop over \<^verbatim>\<open>labels.keys()\<close> builds one figure per key and stores it under the key's
  title with \<^verbatim>\<open>figures[labels[y]] = fig\<close>, which overwrites the value of a title that is
  already a key and adds a new title last; the loop over the tables appends one mapping
  per scenario. \<open>labels\<close> is the dictionary of \<^verbatim>\<open>labels.json\<close> in key order, with strings
  as titles.
\<close>

fun add_traces ::
  "(string \<Rightarrow> error + string) \<Rightarrow> dataframe \<Rightarrow> string \<Rightarrow> string \<Rightarrow> jval
   \<Rightarrow> string list \<Rightarrow> figure \<Rightarrow> error + figure" where
  "add_traces str_float df y title time_step_format [] fig = Inr fig"
| "add_traces str_float df y title time_step_format (p # ps) fig =
     (case filter_percentile df p of Inl e \<Rightarrow> Inl e | Inr df_filtered \<Rightarrow>
     (case make_trace str_float df_filtered y p of Inl e \<Rightarrow> Inl e | Inr t \<Rightarrow>
      add_traces str_float df y title time_step_format ps
        \<lparr>traces = traces fig @ [t], fig_layout = Some (the_layout title time_step_format)\<rparr>))"

fun build_figures ::
  "(string \<Rightarrow> error + string) \<Rightarrow> dataframe \<Rightarrow> (string \<times> string) list \<Rightarrow> jval \<Rightarrow> string list
   \<Rightarrow> string list \<Rightarrow> (string \<times> figure) list \<Rightarrow> error + (string \<times> figure) list" where
  "build_figures str_float df labels time_step_format percentiles [] figures = Inr figures"
| "build_figures str_float df labels time_step_format percentiles (y # ys) figures =
     (case map_of labels y of None \<Rightarrow> Inl (KeyError y) | Some title \<Rightarrow>
     (case add_traces str_float df y title time_step_format percentiles Figure of
        Inl e \<Rightarrow> Inl e
      | Inr fig \<Rightarrow>
          build_figures str_float df labels time_step_format percentiles ys
            (AList.update title fig figures)))"

definition scenario_figures ::
  "(string \<Rightarrow> error + string) \<Rightarrow> (string \<times> string) list \<Rightarrow> jval \<Rightarrow> dataframe
   \<Rightarrow> error + (string \<times> figure) list" where
  "scenario_figures str_float labels time_step_format df =
     (case percentiles_of df of Inl e \<Rightarrow> Inl e | Inr percentiles \<Rightarrow>
     (case y_cols_of df of Inl e \<Rightarrow> Inl e | Inr y_cols \<Rightarrow>
      build_figures str_float df labels time_step_format percentiles (map fst labels) []))"

fun make_figure_loop ::
  "(string \<Rightarrow> error + string) \<Rightarrow> (string \<times> string) list \<Rightarrow> jval \<Rightarrow> dataframe list
   \<Rightarrow> (string \<times> figure) list list \<Rightarrow> error + (string \<times> figure) list list" where
  "make_figure_loop str_float labels time_step_format [] all_scenario_figures =
     Inr all_scenario_figures"
| "make_figure_loop str_float labels time_step_format (df # dfs) all_scenario_figures =
     (case scenario_figures str_float labels time_step_format df of
        Inl e \<Rightarrow> Inl e
      | Inr figures \<Rightarrow>
          make_figure_loop str_float labels time_step_format dfs
            (all_scenario_figures @ [figures]))"

definition make_figure ::
  "(string \<Rightarrow> error + string) \<Rightarrow> dataframe list \<Rightarrow> (string \<times> string) list \<Rightarrow> jval
   \<Rightarrow> error + (string \<times> figure) list list" where
  "make_figure str_float dfs labels time_step_format =
     make_figure_loop str_float labels time_step_format dfs []"

section \<open>The dashboard renderer \<^verbatim>\<open>figures_to_html\<close>\<close>

subsection \<open>Files and handles\<close>

text \<open>
  The part of the operating system that the function touches: the text of every file, the
  handles that are open for writing (each named by the path it was opened on, in the
  order of opening) and the free space left. \<open>open_w\<close> is \<^verbatim>\<open>open(filename, 'w')\<close>: it
  fails as \<open>open_error\<close> says (a parameter), or truncates the file and adds a handle.
  \<open>write_py\<close> fails on a handle that is not open and when the text does not fit, and
  appends the text otherwise (buffering is not modelled). \<open>close\<close> is what
  \<^verbatim>\<open>file.close()\<close>, or leaving a \<^verbatim>\<open>with\<close> block, does to a handle.
\<close>

record io =
  files :: "(string \<times> string) list"
  handles :: "string list"
  space :: nat

definition file_text :: "io \<Rightarrow> string \<Rightarrow> string" where
  "file_text s path = (case map_of (files s) path of None \<Rightarrow> [] | Some t \<Rightarrow> t)"

definition open_w :: "(string \<Rightarrow> error option) \<Rightarrow> string \<Rightarrow> io \<Rightarrow> error + io" where
  "open_w open_error path s =
     (case open_error path of
        Some e \<Rightarrow> Inl e
      | None \<Rightarrow> Inr (s\<lparr>files := AList.update path [] (files s), handles := handles s @ [path]\<rparr>))"

definition write_py :: "string \<Rightarrow> string \<Rightarrow> io \<Rightarrow> error + io" where
  "write_py h text s =
     (if h \<notin> set (handles s) then Inl (ValueError ''I/O operation on closed file.'')
      else if space s < length text then Inl (OSError ''No space left on device'')
      else Inr (s\<lparr>files := AList.update h (file_text s h @ text) (files s),
                 space := space s - length text\<rparr>))"

definition close :: "string \<Rightarrow> io \<Rightarrow> io" where
  "close h s = s\<lparr>handles := remove1 h (handles s)\<rparr>"

subsection \<open>The body of a figure's page\<close>

text \<open>
  \<open>split_py sep s\<close> is \<^verbatim>\<open>s.split(sep)\<close> for a separator that is not empty.
  \<open>inner_html\<close> is \<^verbatim>\<open>html.split("<body>")[1].split("</body>")[0]\<close>: the index
  \<^verbatim>\<open>[1]\<close> raises when the page has no \<^verbatim>\<open><body>\<close>.
\<close>

function split_py :: "string \<Rightarrow> string \<Rightarrow> string list" where
  "split_py sep s =
     (if s = [] then [[]]
      else if sep \<noteq> [] \<and> prefix sep s then [] # split_py sep (drop (length sep) s)
      else (case split_py sep (tl s) of
              [] \<Rightarrow> [[hd s]]
            | part # parts \<Rightarrow> (hd s # part) # parts))"
  by pat_completeness auto
termination
  by (relation "measure (\<lambda>(sep, s). length s)") auto

definition inner_html :: "string \<Rightarrow> error + string" where
  "inner_html html =
     (case split_py ''<body>'' html of
        a # b # rest \<Rightarrow> (case split_py ''</body>'' b of [] \<Rightarrow> Inl IndexError | c # cs \<Rightarrow> Inr c)
      | _ \<Rightarrow> Inl IndexError)"

subsection \<open>\<^verbatim>\<open>figures_to_html\<close>\<close>

text \<open>
  Lines 180 to 188. \<open>to_html\<close> is plotly's \<^verbatim>\<open>Figure.to_html\<close>, a parameter. The result is
  what the call raises, if it raises, and the state it leaves. The source calls neither
  \<^verbatim>\<open>close\<close> nor \<^verbatim>\<open>with\<close> on \<^verbatim>\<open>dashboard\<close>, so the model has no \<open>close\<close> step either.
\<close>

definition header :: string where
  "header = ''<html>''
     @ ''<head><link rel='' @ [CHR 0x27] @ ''stylesheet'' @ [CHR 0x27] @ '' type='' @ [CHR 0x27]
     @ ''text/css'' @ [CHR 0x27] @ '' href='' @ [CHR 0x27] @ ''assets/style.css'' @ [CHR 0x27]
     @ ''></head>''
     @ ''<body><div class='' @ [CHR 0x27] @ ''container'' @ [CHR 0x27]
     @ ''><h2>COVID-19 Forecast for TMC (Experimental Draft; Do Not Take Seriously)</h2>''
     @ [CHR 0x0A]"

definition footer :: string where
  "footer = ''</div></body></html>'' @ [CHR 0x0A]"

fun write_figures ::
  "(figure \<Rightarrow> string) \<Rightarrow> string \<Rightarrow> (string \<times> figure) list \<Rightarrow> io \<Rightarrow> error option \<times> io" where
  "write_figures to_html dashboard [] s = (None, s)"
| "write_figures to_html dashboard ((k, v) # rest) s =
     (case inner_html (to_html v) of
        Inl e \<Rightarrow> (Some e, s)
      | Inr text \<Rightarrow>
          (case write_py dashboard text s of
             Inl e \<Rightarrow> (Some e, s)
           | Inr s' \<Rightarrow> write_figures to_html dashboard rest s'))"

definition figures_to_html ::
  "(figure \<Rightarrow> string) \<Rightarrow> (string \<Rightarrow> error option) \<Rightarrow> (string \<times> figure) list \<Rightarrow> string \<Rightarrow> io
   \<Rightarrow> error option \<times> io" where
  "figures_to_html to_html open_error figs filename s =
     (case open_w open_error filename s of
        Inl e \<Rightarrow> (Some e, s)
      | Inr s1 \<Rightarrow>
          (case write_py filename header s1 of
             Inl e \<Rightarrow> (Some e, s1)
           | Inr s2 \<Rightarrow>
               (case write_figures to_html filename figs s2 of
                  (Some e, s3) \<Rightarrow> (Some e, s3)
                | (None, s3) \<Rightarrow>
                    (case write_py filename footer s3 of
                       Inl e \<Rightarrow> (Some e, s3)
                     | Inr s4 \<Rightarrow> (None, s4)))))"

section \<open>Properties of the duration parser\<close>

subsection \<open>Conversion of a number\<close>



lemma float_py_error: "float_py s = Inl e \<Longrightarrow> e = ValueError (float_msg s)"
  by (auto simp: float_py_def Let_def split: if_splits)

lemma time_params_error: "time_params gs = Inl e \<Longrightarrow> \<exists>m. e = ValueError m"
proof (induction gs)
  case Nil
  then show ?case by simp
next
  case (Cons g gs)
  obtain name param where g: "g = (name, param)" by (cases g)
  show ?case
    using Cons g by (auto split: if_splits sum.splits dest: float_py_error)
qed

lemma Timedelta_error: "Timedelta kw = Inl e \<Longrightarrow> \<exists>m. e = ValueError m"
  by (auto simp: Timedelta_def split: if_splits)

subsection \<open>The pattern on a well-formed string\<close>













lemma parse_time_examples:
  "parse_time ''2h13m'' = Inr (2 * 3600 + 13 * 60)"
  "parse_time ''1.5h.5s'' = Inr (3 * 3600 / 2 + 1 / 2)"
  "parse_time ''1.2.3h'' = Inl (ValueError (float_msg ''1.2.3''))"
  by code_simp+

text \<open>
  C1, as the code has it. The assertion is \<^verbatim>\<open>parts is not None\<close>: \<open>parse_time\<close> fails
  with the assertion and its message exactly when the pattern does not match, as for
  \<^verbatim>\<open>"abc"\<close>. The empty string matches the pattern with its four groups empty, so the
  assertion passes; the call then fails in \<^verbatim>\<open>pd.Timedelta\<close>, which is given no component,
  with a \<^verbatim>\<open>ValueError\<close>.
\<close>

theorem parse_time_assertion:
  "(parse_time s = Inl (AssertionError msg)) = (regex_match s = None \<and> msg = assert_msg s)
   \<and> parse_time ''abc'' = Inl (AssertionError (assert_msg ''abc''))
   \<and> regex_match '''' = Some (None, None, None, None)
   \<and> parse_time ''''
       = Inl (ValueError
           ''cannot construct a Timedelta without a value/unit or descriptive keywords (days,seconds....)'')"
proof -
  have 1: "(parse_time s = Inl (AssertionError msg)) = (regex_match s = None \<and> msg = assert_msg s)"
    by (auto simp: parse_time_def split: option.splits sum.splits
          dest: time_params_error Timedelta_error)
  have 2: "parse_time ''abc'' = Inl (AssertionError (assert_msg ''abc''))"
    by code_simp
  have 3: "regex_match '''' = Some (None, None, None, None)"
    by code_simp
  have 4: "parse_time ''''
       = Inl (ValueError
           ''cannot construct a Timedelta without a value/unit or descriptive keywords (days,seconds....)'')"
    by code_simp
  show ?thesis using 1 2 3 4 by blast
qed

text \<open>
  C1 as stated fails: on the empty string \<open>parse_time\<close> does not fail with the assertion.
\<close>

theorem parse_time_empty_counterexample:
  "parse_time '''' \<noteq> Inl (AssertionError (assert_msg ''''))"
  by code_simp

end
